theory Spec2Isabelle
  imports Main "HOL-Library.Word"
begin

section \<open>JavaScript values\<close>

text \<open>
  The node exchanges JSON with the portal and the execution host and reads its
  parameters from the workflow engine. Values are modelled dynamically, as the
  runtime has them: the TypeScript interfaces \<^verbatim>\<open>IncubateResponse\<close>, \<^verbatim>\<open>Job\<close>,
  \<^verbatim>\<open>IncubateOutput\<close> and \<^verbatim>\<open>SDKResult\<close> are unchecked casts of a decoded response.

  Numbers are the integers (exact in a double below \<open>2^53\<close>); fractions, NaN and
  the infinities are outside the model. Strings are lists of code units below 256.
  An object is the list of its own enumerable properties in insertion order.
\<close>

datatype jsval =
    JUndefined
  | JNull
  | JBool bool
  | JNum int
  | JStr string
  | JArr "jsval list"
  | JObj "(string \<times> jsval) list"

type_synonym obj = "(string \<times> jsval) list"

text \<open>A template literal: its literal chunks and the interpolated values, in order.\<close>

datatype part = Lit string | Interp jsval

text \<open>
  What a call can throw: \<open>TypeError\<close> for a property read on \<open>undefined\<close> or
  \<open>null\<close>, \<open>TransportError\<close> for a failed \<^verbatim>\<open>helpers.request\<close> or SDK call,
  \<open>NodeOperationError\<close> with the message the code builds.
\<close>

datatype js_error =
    TypeError
  | TransportError string
  | NodeOperationError "part list"

text \<open>ToBoolean.\<close>

fun truthy :: "jsval \<Rightarrow> bool" where
  "truthy JUndefined = False"
| "truthy JNull = False"
| "truthy (JBool b) = b"
| "truthy (JNum n) = (n \<noteq> 0)"
| "truthy (JStr s) = (s \<noteq> [])"
| "truthy (JArr xs) = True"
| "truthy (JObj kvs) = True"

text \<open>\<^verbatim>\<open>a || b\<close> on values.\<close>

definition js_or :: "jsval \<Rightarrow> jsval \<Rightarrow> jsval" where
  "js_or a b = (if truthy a then a else b)"

definition nullish :: "jsval \<Rightarrow> bool" where
  "nullish v = (v = JUndefined \<or> v = JNull)"

text \<open>
  \<open>getprop v k\<close> is the own property \<open>k\<close> of \<open>v\<close>, \<open>undefined\<close> when there is none.
  The names the program reads (\<^verbatim>\<open>job\<close>, \<^verbatim>\<open>output\<close>, \<^verbatim>\<open>result\<close>, \<^verbatim>\<open>vesselId\<close>, ...) are
  not properties of the String, Number, Boolean or Array prototypes, so a read on a
  primitive or an array gives \<open>undefined\<close>.
\<close>

fun getprop :: "jsval \<Rightarrow> string \<Rightarrow> jsval" where
  "getprop (JObj kvs) k = (case map_of kvs k of Some v \<Rightarrow> v | None \<Rightarrow> JUndefined)"
| "getprop v k = JUndefined"

text \<open>\<^verbatim>\<open>v.k\<close>: throws on \<open>undefined\<close> and \<open>null\<close>.\<close>

definition js_member :: "jsval \<Rightarrow> string \<Rightarrow> js_error + jsval" where
  "js_member v k = (if nullish v then Inl TypeError else Inr (getprop v k))"

text \<open>\<^verbatim>\<open>o.k = v\<close>: replaces the property in place, or appends it.\<close>

fun assign :: "obj \<Rightarrow> string \<Rightarrow> jsval \<Rightarrow> obj" where
  "assign [] k v = [(k, v)]"
| "assign ((k', v') # kvs) k v =
     (if k' = k then (k, v) # kvs else (k', v') # assign kvs k v)"

text \<open>Sequencing of calls that may throw.\<close>

definition and_then :: "js_error + 'a \<Rightarrow> ('a \<Rightarrow> js_error + 'b) \<Rightarrow> js_error + 'b" where
  "and_then m f = (case m of Inl e \<Rightarrow> Inl e | Inr x \<Rightarrow> f x)"

text \<open>
  A run of statements \<^verbatim>\<open>result.k = base.f\<close>, one per pair \<open>(k, f)\<close>; an object
  literal \<^verbatim>\<open>{ k: base.f, ... }\<close> with distinct keys is such a run from the empty object.
\<close>

fun assign_from :: "obj \<Rightarrow> jsval \<Rightarrow> (string \<times> string) list \<Rightarrow> js_error + obj" where
  "assign_from r base [] = Inr r"
| "assign_from r base ((k, f) # rest) =
     (case js_member base f of
        Inl e \<Rightarrow> Inl e
      | Inr v \<Rightarrow> assign_from (assign r k v) base rest)"

section \<open>Result normalisation\<close>

text \<open>
  The body of \<^verbatim>\<open>if (job.isCompleted) { ... return result; }\<close> in \<^verbatim>\<open>createJob\<close>:
  the flat record built from a terminal job.
\<close>

definition flatten :: "jsval \<Rightarrow> js_error + obj" where
  "flatten job =
     and_then (assign_from [] job
        [(''jobId'', ''id''), (''status'', ''status''), (''isSuccess'', ''isSuccess''),
         (''isFailed'', ''isFailed''), (''createdAt'', ''createdAt''),
         (''updatedAt'', ''updatedAt''), (''startedAt'', ''startedAt''),
         (''finishedAt'', ''finishedAt'')]) (\<lambda>result.
     and_then (js_member job ''output'') (\<lambda>output.
     and_then
       (if truthy output then
          and_then (assign_from result output
             [(''success'', ''success''), (''text'', ''text''), (''error'', ''error'')]) (\<lambda>result.
          and_then (js_member output ''result'') (\<lambda>res.
            if truthy res then
              and_then (assign_from result res
                 [(''resultSubtype'', ''subtype''), (''resultText'', ''result''),
                  (''totalCostUsd'', ''total_cost_usd''), (''usage'', ''usage'')]) (\<lambda>result.
              and_then (js_member res ''structured_output'') (\<lambda>so.
                Inr (if so \<noteq> JUndefined then assign result ''structuredOutput'' so
                     else result)))
            else Inr result))
        else Inr result) (\<lambda>result.
     and_then (js_member job ''output'') (\<lambda>raw.
       Inr (assign result ''rawOutput'' raw)))))"

section \<open>Strings\<close>

text \<open>\<^verbatim>\<open>s.split(c)\<close> for a one-character separator: never empty, \<^verbatim>\<open>''.split(',')\<close> is \<^verbatim>\<open>['']\<close>.\<close>

fun split_on :: "char \<Rightarrow> string \<Rightarrow> string list" where
  "split_on c [] = [[]]"
| "split_on c (x # xs) =
     (if x = c then [] # split_on c xs
      else (case split_on c xs of
              [] \<Rightarrow> [[x]]
            | y # ys \<Rightarrow> (x # y) # ys))"

text \<open>
  The white space of \<^verbatim>\<open>String.prototype.trim\<close> among the code units below 256:
  TAB, LF, VT, FF, CR, SPACE and NBSP.
\<close>

definition is_space :: "char \<Rightarrow> bool" where
  "is_space c = (of_char c \<in> {9, 10, 11, 12, 13, 32, 160 :: nat})"

definition trim :: "string \<Rightarrow> string" where
  "trim s = rev (dropWhile is_space (rev (dropWhile is_space s)))"

text \<open>\<^verbatim>\<open>s.split(',').map((t) => t.trim())\<close>\<close>

definition split_trim :: "string \<Rightarrow> jsval" where
  "split_trim s = JArr (map (\<lambda>t. JStr (trim t)) (split_on CHR '','' s))"

definition digit_char :: "nat \<Rightarrow> char" where
  "digit_char n = ''0123456789abcdef'' ! n"

text \<open>The decimal numeral of an integer, as a template literal renders it.\<close>

fun digits :: "nat \<Rightarrow> string" where
  "digits n = (if n < 10 then [digit_char n] else digits (n div 10) @ [digit_char (n mod 10)])"

declare digits.simps [simp del]

definition decimal :: "int \<Rightarrow> string" where
  "decimal i = (if i < 0 then CHR ''-'' # digits (nat (- i)) else digits (nat i))"

text \<open>\<^verbatim>\<open>Buffer.toString('hex')\<close>: two lower-case digits for each byte.\<close>

definition hex_byte :: "8 word \<Rightarrow> string" where
  "hex_byte b = [digit_char (unat b div 16), digit_char (unat b mod 16)]"

definition hex :: "8 word list \<Rightarrow> string" where
  "hex bs = concat (map hex_byte bs)"

section \<open>Node parameters\<close>

text \<open>
  The option collections \<^verbatim>\<open>createJob\<close> reads with \<^verbatim>\<open>getNodeParameter\<close>; an
  optional field that is not set is \<open>None\<close>. \<^verbatim>\<open>outputFormat\<close> is a value: the
  engine's JSON field hands over a string or an object, \<open>JUndefined\<close> when unset.
\<close>

record pollingOptions =
  pollingInterval :: "int option"
  timeout :: "int option"

record modelOptions =
  model :: "string option"
  customModel :: "string option"
  systemPrompt :: "string option"
  maxTurns :: "int option"
  outputFormat :: jsval

record toolOptions =
  tools :: "string option"
  allowedTools :: "string option"
  disallowedTools :: "string option"
  permissionMode :: "string option"

record callbackOptions =
  callbackUrl :: "string option"
  callbackSecret :: "string option"

record advancedOptions =
  userId :: "string option"
  idempotencyKey :: "string option"
  ttl :: "int option"
  aiBudget :: "int option"
  computeBudget :: "int option"

record params =
  projectId :: string
  message :: string
  waitForCompletion :: bool
  pollingOptions :: pollingOptions
  modelOptions :: modelOptions
  toolOptions :: toolOptions
  callbackOptions :: callbackOptions
  advancedOptions :: advancedOptions

text \<open>Truthiness of an optional string, and \<^verbatim>\<open>x || d\<close> for strings and numbers.\<close>

definition str_truthy :: "string option \<Rightarrow> bool" where
  "str_truthy x = (case x of None \<Rightarrow> False | Some s \<Rightarrow> s \<noteq> [])"

definition str_or :: "string option \<Rightarrow> string \<Rightarrow> string" where
  "str_or x d = (case x of None \<Rightarrow> d | Some s \<Rightarrow> if s \<noteq> [] then s else d)"

definition num_or :: "int option \<Rightarrow> int \<Rightarrow> int" where
  "num_or x d = (case x of None \<Rightarrow> d | Some n \<Rightarrow> if n \<noteq> 0 then n else d)"

section \<open>The outside world\<close>

text \<open>
  One run of the node sees the replies of the remote services, the readings of the
  clock and the bytes of the random source; a \<open>world\<close> is the script of them.
  \<open>json_parse\<close> is \<^verbatim>\<open>JSON.parse\<close> (\<open>None\<close> when it throws), \<open>createToken\<close> the
  SDK's signing routine, \<open>clock w i\<close> the \<open>i\<close>-th reading of \<^verbatim>\<open>Date.now()\<close>,
  \<open>randomBytes w\<close> the result of \<^verbatim>\<open>crypto.randomBytes(4)\<close>, \<open>job_reply w k\<close> the reply
  to the \<open>k\<close>-th request of \<^verbatim>\<open>/api/jobs/get\<close>. A request that fails is \<open>Inl\<close>.
  \<open>nonstring_error w v\<close> is what \<^verbatim>\<open>throw new NodeOperationError(node, v)\<close> raises for
  a value \<open>v\<close> that is not a string: the constructor belongs to the workflow engine's
  library, which declares its argument a string or an \<^verbatim>\<open>Error\<close>.
\<close>

record budget =
  aiDollars :: int
  computeHours :: int
  window :: string

record token_options =
  tokenUserId :: string
  tokenProjectId :: string
  secret :: jsval
  expiresIn :: int
  tokenBudget :: budget

record world =
  json_parse :: "string \<Rightarrow> jsval option"
  hmac_reply :: "js_error + jsval"
  createToken :: "token_options \<Rightarrow> js_error + jsval"
  clock :: "nat \<Rightarrow> int"
  randomBytes :: "8 word list"
  incubate_reply :: "js_error + jsval"
  job_reply :: "nat \<Rightarrow> js_error + jsval"
  cancel_reply :: "js_error + jsval"
  nonstring_error :: "jsval \<Rightarrow> js_error"

datatype endpoint = HmacKey | Incubate | JobsGet | JobsCancel

text \<open>What a run does to the outside: the requests it sends and the timers it waits for.\<close>

datatype event = Http endpoint jsval | Suspend int

section \<open>The job request builder\<close>

text \<open>\<^verbatim>\<open>...(x && { ... })\<close> in an object literal, for an optional string and number.\<close>

definition spread_str :: "string option \<Rightarrow> (string \<Rightarrow> obj) \<Rightarrow> obj" where
  "spread_str x f = (case x of None \<Rightarrow> [] | Some s \<Rightarrow> if s \<noteq> [] then f s else [])"

definition spread_num :: "int option \<Rightarrow> (int \<Rightarrow> obj) \<Rightarrow> obj" where
  "spread_num x f = (case x of None \<Rightarrow> [] | Some n \<Rightarrow> if n \<noteq> 0 then f n else [])"

text \<open>\<^verbatim>\<open>typeof v === 'object'\<close>\<close>

fun is_object :: "jsval \<Rightarrow> bool" where
  "is_object JNull = True"
| "is_object (JArr xs) = True"
| "is_object (JObj kvs) = True"
| "is_object v = False"

text \<open>\<^verbatim>\<open>Object.keys(v)\<close>, which the code applies to truthy values only.\<close>

fun object_keys :: "jsval \<Rightarrow> string list" where
  "object_keys (JObj kvs) = map fst kvs"
| "object_keys (JArr xs) = map digits [0..<length xs]"
| "object_keys (JStr s) = map digits [0..<length s]"
| "object_keys v = []"

text \<open>
  \<^verbatim>\<open>advancedOptions.idempotencyKey || `n8n-${Date.now()}-${crypto.randomBytes(4).toString('hex')}`\<close>:
  the clock and the random source are read only when no key is supplied.
\<close>

definition generated_key :: "world \<Rightarrow> string" where
  "generated_key w = ''n8n-'' @ decimal (clock w 0) @ ''-'' @ hex (randomBytes w)"

definition idempotency_key :: "world \<Rightarrow> params \<Rightarrow> string" where
  "idempotency_key w p = str_or (idempotencyKey (advancedOptions p)) (generated_key w)"

text \<open>The number of clock readings taken while the request is built.\<close>

definition clock_reads :: "params \<Rightarrow> nat" where
  "clock_reads p = (if str_truthy (idempotencyKey (advancedOptions p)) then 0 else 1)"

definition model_of :: "params \<Rightarrow> string" where
  "model_of p =
     (let m = str_or (model (modelOptions p)) ''claude-sonnet-4-5-20250929''
      in case customModel (modelOptions p) of
           None \<Rightarrow> m
         | Some c \<Rightarrow> if m = ''custom'' \<and> c \<noteq> [] then c else m)"

definition toolsValue :: "world \<Rightarrow> params \<Rightarrow> jsval" where
  "toolsValue w p =
     (case tools (toolOptions p) of
        None \<Rightarrow> JUndefined
      | Some s \<Rightarrow>
          if s \<noteq> [] then
            (case json_parse w s of
               Some v \<Rightarrow> v
             | None \<Rightarrow> split_trim s)
          else JUndefined)"

definition parsedOutputFormat :: "world \<Rightarrow> params \<Rightarrow> jsval" where
  "parsedOutputFormat w p =
     (let fmt = outputFormat (modelOptions p)
      in if truthy fmt then
           (case fmt of
              JStr s \<Rightarrow>
                (case json_parse w s of
                   Some parsed \<Rightarrow>
                     if truthy parsed \<and> is_object parsed then parsed else JUndefined
                 | None \<Rightarrow> JUndefined)
            | _ \<Rightarrow> if is_object fmt then fmt else JUndefined)
         else JUndefined)"

definition request_options :: "world \<Rightarrow> params \<Rightarrow> jsval \<Rightarrow> obj" where
  "request_options w p token =
     [(''token'', token), (''model'', JStr (model_of p))]
     @ spread_str (systemPrompt (modelOptions p)) (\<lambda>s. [(''systemPrompt'', JStr s)])
     @ spread_num (maxTurns (modelOptions p)) (\<lambda>n. [(''maxTurns'', JNum n)])
     @ (if truthy (parsedOutputFormat w p) \<and> length (object_keys (parsedOutputFormat w p)) > 0
        then [(''outputFormat'',
               JObj [(''type'', JStr ''json_schema''), (''schema'', parsedOutputFormat w p)])]
        else [])
     @ (if toolsValue w p \<noteq> JUndefined then [(''tools'', toolsValue w p)] else [])
     @ spread_str (allowedTools (toolOptions p)) (\<lambda>s. [(''allowedTools'', split_trim s)])
     @ spread_str (disallowedTools (toolOptions p)) (\<lambda>s. [(''disallowedTools'', split_trim s)])
     @ spread_str (permissionMode (toolOptions p)) (\<lambda>m.
         if m \<noteq> ''default''
         then [(''permissionMode'', JStr m),
               (''allowDangerouslySkipPermissions'', JBool (m = ''bypassPermissions''))]
         else [])"

text \<open>\<^verbatim>\<open>if (advancedOptions.ttl && advancedOptions.ttl > 0) { body.ttl = advancedOptions.ttl; }\<close>\<close>

definition with_ttl :: "params \<Rightarrow> obj \<Rightarrow> obj" where
  "with_ttl p body =
     (case ttl (advancedOptions p) of
        None \<Rightarrow> body
      | Some n \<Rightarrow> if n \<noteq> 0 \<and> n > 0 then assign body ''ttl'' (JNum n) else body)"

text \<open>\<^verbatim>\<open>if (callbackOptions.callbackUrl) { body.callback = { url: ..., ...(secret) }; }\<close>\<close>

definition with_callback :: "params \<Rightarrow> obj \<Rightarrow> obj" where
  "with_callback p body =
     (case callbackUrl (callbackOptions p) of
        None \<Rightarrow> body
      | Some u \<Rightarrow>
          if u \<noteq> [] then
            assign body ''callback''
              (JObj ((''url'', JStr u)
                 # spread_str (callbackSecret (callbackOptions p)) (\<lambda>s. [(''secret'', JStr s)])))
          else body)"

definition request_body :: "world \<Rightarrow> params \<Rightarrow> jsval \<Rightarrow> obj" where
  "request_body w p token =
     with_callback p (with_ttl p
       [(''message'', JStr (message p)),
        (''idempotencyKey'', JStr (idempotency_key w p)),
        (''options'', JObj (request_options w p token))])"

section \<open>Submission\<close>

definition getHmacKey :: "world \<Rightarrow> js_error + jsval" where
  "getHmacKey w = and_then (hmac_reply w) (\<lambda>response. js_member response ''hmacKey'')"

definition token_request :: "params \<Rightarrow> jsval \<Rightarrow> token_options" where
  "token_request p hmacSecret =
     \<lparr>tokenUserId = str_or (userId (advancedOptions p)) ''n8n-workflow'',
      tokenProjectId = projectId p,
      secret = hmacSecret,
      expiresIn = 3600,
      tokenBudget = \<lparr>aiDollars = num_or (aiBudget (advancedOptions p)) 10,
                     computeHours = num_or (computeBudget (advancedOptions p)) 1,
                     window = ''day''\<rparr>\<rparr>"

text \<open>
  \<^verbatim>\<open>throw new NodeOperationError(this.getNode(), v)\<close>: the error whose message is \<open>v\<close>
  when \<open>v\<close> is a string, as the interface \<^verbatim>\<open>IncubateResponse\<close> declares \<^verbatim>\<open>error\<close> and
  \<^verbatim>\<open>message\<close>; on any other value, what the library's constructor makes of it.
\<close>

definition operation_error :: "world \<Rightarrow> jsval \<Rightarrow> js_error" where
  "operation_error w v =
     (case v of
        JStr s \<Rightarrow> NodeOperationError [Interp (JStr s)]
      | _ \<Rightarrow> nonstring_error w v)"

text \<open>
  The test of the reply of \<^verbatim>\<open>/incubate\<close>: \<^verbatim>\<open>data.error\<close> throws a \<open>TypeError\<close> on a
  reply that is \<open>undefined\<close> or \<open>null\<close>; on any other reply the reads cannot throw.
\<close>

definition check_response :: "world \<Rightarrow> jsval \<Rightarrow> js_error + jsval" where
  "check_response w data =
     (if nullish data then Inl TypeError
      else if truthy (getprop data ''error'') \<or> truthy (getprop data ''message'')
      then Inl (operation_error w
             (js_or (getprop data ''message'')
                (js_or (getprop data ''error'') (JStr ''Failed to create job''))))
      else Inr data)"

text \<open>
  \<^verbatim>\<open>createJob\<close> up to the test of the reply: the reply and the number of clock
  readings so far, or the error thrown, and the requests sent.
\<close>

definition submit :: "world \<Rightarrow> params \<Rightarrow> (js_error + jsval \<times> nat) \<times> event list" where
  "submit w p =
     (let tr1 = [Http HmacKey (JObj [(''projectId'', JStr (projectId p))])]
      in case getHmacKey w of
           Inl e \<Rightarrow> (Inl e, tr1)
         | Inr hmacSecret \<Rightarrow>
             (case createToken w (token_request p hmacSecret) of
                Inl e \<Rightarrow> (Inl e, tr1)
              | Inr token \<Rightarrow>
                  (let tr2 = tr1 @ [Http Incubate (JObj (request_body w p token))]
                   in case incubate_reply w of
                        Inl e \<Rightarrow> (Inl e, tr2)
                      | Inr data \<Rightarrow>
                          (case check_response w data of
                             Inl e \<Rightarrow> (Inl e, tr2)
                           | Inr d \<Rightarrow> (Inr (d, clock_reads p), tr2)))))"

section \<open>The completion poller\<close>

definition getJob_request :: "jsval \<Rightarrow> event" where
  "getJob_request jobId = Http JobsGet (JObj [(''jobId'', jobId)])"

text \<open>\<^verbatim>\<open>getJob\<close>, for the \<open>k\<close>-th request of the run.\<close>

definition getJob :: "world \<Rightarrow> nat \<Rightarrow> js_error + jsval" where
  "getJob w k = and_then (job_reply w k) (\<lambda>response. js_member response ''job'')"

definition pollingInterval_ms :: "params \<Rightarrow> int" where
  "pollingInterval_ms p = num_or (pollingInterval (pollingOptions p)) 5 * 1000"

definition timeout_ms :: "params \<Rightarrow> int" where
  "timeout_ms p = num_or (timeout (pollingOptions p)) 600 * 1000"

definition timeout_message :: "jsval \<Rightarrow> int \<Rightarrow> part list" where
  "timeout_message vesselId secs =
     [Lit ''Job '', Interp vesselId, Lit '' did not complete within '',
      Interp (JNum secs), Lit '' seconds'']"

text \<open>
  The \<^verbatim>\<open>while\<close> loop of \<^verbatim>\<open>createJob\<close> and the \<^verbatim>\<open>throw\<close> after it. \<open>n\<close> clock readings
  and \<open>k\<close> fetches have been made, \<open>tr\<close> is the trace so far. The loop ends only
  when the clock reaches the deadline, a fetch fails or a job is completed: a run that
  never returns is \<open>None\<close>.
\<close>

partial_function (option) poll ::
  "world \<Rightarrow> jsval \<Rightarrow> int \<Rightarrow> int \<Rightarrow> int \<Rightarrow> int \<Rightarrow> nat \<Rightarrow> nat \<Rightarrow> event list
     \<Rightarrow> ((js_error + obj) \<times> event list) option" where
  "poll w vesselId interval_ms limit_ms limit_s startTime n k tr =
     (if clock w n - startTime < limit_ms then
        (case getJob w k of
           Inl e \<Rightarrow> Some (Inl e, tr @ [getJob_request vesselId])
         | Inr job \<Rightarrow>
             (case js_member job ''isCompleted'' of
                Inl e \<Rightarrow> Some (Inl e, tr @ [getJob_request vesselId])
              | Inr c \<Rightarrow>
                  if truthy c then Some (flatten job, tr @ [getJob_request vesselId])
                  else poll w vesselId interval_ms limit_ms limit_s startTime (Suc n) (Suc k)
                         (tr @ [getJob_request vesselId, Suspend interval_ms])))
      else Some (Inl (NodeOperationError (timeout_message vesselId limit_s)), tr))"

declare poll.simps [code]

section \<open>The operations\<close>

definition createJob :: "world \<Rightarrow> params \<Rightarrow> ((js_error + obj) \<times> event list) option" where
  "createJob w p =
     (case submit w p of
        (Inl e, tr) \<Rightarrow> Some (Inl e, tr)
      | (Inr (data, n), tr) \<Rightarrow>
          if \<not> waitForCompletion p then
            Some (Inr [(''jobId'', getprop data ''vesselId''),
                       (''idempotencyKey'', getprop data ''idempotencyKey''),
                       (''status'', getprop data ''status''),
                       (''scheduledFor'', getprop data ''scheduledFor'')], tr)
          else
            poll w (getprop data ''vesselId'') (pollingInterval_ms p) (timeout_ms p)
              (num_or (timeout (pollingOptions p)) 600) (clock w n) (Suc n) 0 tr)"

definition cancelJob :: "world \<Rightarrow> string \<Rightarrow> (js_error + obj) \<times> event list" where
  "cancelJob w jobId =
     (case cancel_reply w of
        Inl e \<Rightarrow> (Inl e, [Http JobsCancel (JObj [(''jobId'', JStr jobId)])])
      | Inr response \<Rightarrow>
          (Inr [(''success'', JBool True), (''jobId'', JStr jobId)],
           [Http JobsCancel (JObj [(''jobId'', JStr jobId)])]))"

section \<open>Observations on a run\<close>

text \<open>The \<open>k\<close>-th fetch returns a job record that is not completed.\<close>

definition pending :: "world \<Rightarrow> nat \<Rightarrow> bool" where
  "pending w k =
     (case getJob w k of
        Inl e \<Rightarrow> False
      | Inr job \<Rightarrow> \<not> nullish job \<and> \<not> truthy (getprop job ''isCompleted''))"

text \<open>A field declared \<^verbatim>\<open>f?: string\<close> holds a string or is absent.\<close>

fun string_field :: "jsval \<Rightarrow> bool" where
  "string_field (JStr s) = True"
| "string_field JUndefined = True"
| "string_field v = False"

text \<open>The number of requests a trace sends to an endpoint.\<close>

fun requested :: "endpoint \<Rightarrow> event list \<Rightarrow> nat" where
  "requested x [] = 0"
| "requested x (Http y b # tr) = (if x = y then Suc (requested x tr) else requested x tr)"
| "requested x (Suspend d # tr) = requested x tr"

section \<open>A scenario\<close>

text \<open>
  A job that is executing for two polls and then completed, polled every second with
  a timeout of three seconds. \<open>example_parse\<close> agrees with \<^verbatim>\<open>JSON.parse\<close> on the texts
  the scenario uses. The clock shows the same millisecond when the key is made, when
  polling starts and at the first test of the loop, and one second more at each
  later test.
\<close>

definition example_parse :: "string \<Rightarrow> jsval option" where
  \<open>example_parse s =
     (if s = ''["Read","Bash"]'' then Some (JArr [JStr ''Read'', JStr ''Bash''])
      else if s = ''{"type":"object"}'' then Some (JObj [(''type'', JStr ''object'')])
      else None)\<close>

definition example_running :: jsval where
  "example_running =
     JObj [(''id'', JStr ''job_1''), (''status'', JStr ''EXECUTING''),
           (''isCompleted'', JBool False), (''isSuccess'', JBool False),
           (''isFailed'', JBool False)]"

definition example_completed :: jsval where
  "example_completed =
     JObj [(''id'', JStr ''job_1''), (''status'', JStr ''COMPLETED''),
           (''isCompleted'', JBool True), (''isSuccess'', JBool True),
           (''isFailed'', JBool False),
           (''output'', JObj [(''success'', JBool True), (''text'', JStr ''done''),
              (''result'', JObj [(''subtype'', JStr ''success''),
                                 (''structured_output'', JNum 0)])])]"

definition example_data :: jsval where
  "example_data =
     JObj [(''vesselId'', JStr ''job_1''), (''idempotencyKey'', JStr ''key_1''),
           (''status'', JStr ''PENDING'')]"

definition example_world :: world where
  "example_world =
     \<lparr>json_parse = example_parse,
      hmac_reply = Inr (JObj [(''hmacKey'', JStr ''hmac'')]),
      createToken = (\<lambda>t. Inr (JStr ''token'')),
      clock = (\<lambda>i. 1700000000000 + 1000 * int (i - 2)),
      randomBytes = [0xde, 0xad, 0xbe, 0xef],
      incubate_reply = Inr example_data,
      job_reply = (\<lambda>k. Inr (JObj [(''job'', if k < 2 then example_running
                                             else example_completed)])),
      cancel_reply = Inr (JObj [(''ok'', JBool True)]),
      nonstring_error = (\<lambda>v. TypeError)\<rparr>"

definition example_params :: params where
  \<open>example_params =
     \<lparr>projectId = ''proj_1'',
      message = ''hello'',
      waitForCompletion = True,
      pollingOptions = \<lparr>pollingInterval = Some 1, timeout = Some 3\<rparr>,
      modelOptions = \<lparr>model = None, customModel = None, systemPrompt = None,
                      maxTurns = Some 0, outputFormat = JStr ''{"type":"object"}''\<rparr>,
      toolOptions = \<lparr>tools = Some ''["Read","Bash"]'', allowedTools = None,
                     disallowedTools = None, permissionMode = None\<rparr>,
      callbackOptions = \<lparr>callbackUrl = None, callbackSecret = None\<rparr>,
      advancedOptions = \<lparr>userId = None, idempotencyKey = None, ttl = Some 0,
                         aiBudget = None, computeBudget = None\<rparr>\<rparr>\<close>

text \<open>The same run against a job that stays in execution.\<close>

definition example_stuck :: world where
  "example_stuck = example_world\<lparr>job_reply := (\<lambda>k. Inr (JObj [(''job'', example_running)]))\<rparr>"

text \<open>The execution host refuses the submission.\<close>

definition example_refused :: world where
  "example_refused =
     example_world\<lparr>incubate_reply := Inr (JObj [(''error'', JStr ''Invalid token'')])\<rparr>"

text \<open>Another draw of the random source at the same millisecond.\<close>

definition example_redraw :: world where
  "example_redraw = example_world\<lparr>randomBytes := [0xde, 0xad, 0xbe, 0xee]\<rparr>"

text \<open>Variants of the parameters.\<close>

definition example_csv_tools :: params where
  "example_csv_tools =
     example_params\<lparr>toolOptions := (toolOptions example_params)\<lparr>tools := Some ''Read, Bash''\<rparr>\<rparr>"

definition example_blank_tools :: params where
  "example_blank_tools =
     example_params\<lparr>toolOptions := (toolOptions example_params)\<lparr>tools := Some []\<rparr>\<rparr>"

definition example_bad_format :: params where
  "example_bad_format =
     example_params\<lparr>modelOptions := (modelOptions example_params)\<lparr>outputFormat := JStr ''{bad''\<rparr>\<rparr>"

definition example_object_format :: params where
  "example_object_format =
     example_params\<lparr>modelOptions := (modelOptions example_params)
       \<lparr>outputFormat := JObj [(''type'', JStr ''object'')]\<rparr>\<rparr>"

definition example_keyed :: params where
  "example_keyed =
     example_params\<lparr>advancedOptions := (advancedOptions example_params)
       \<lparr>idempotencyKey := Some ''my-key''\<rparr>\<rparr>"

section \<open>Properties of the values\<close>

lemma truthy_not_nullish: "truthy v \<Longrightarrow> \<not> nullish v"
  by (cases v) (simp_all add: nullish_def)

lemma falsy_getprop: "\<not> truthy v \<Longrightarrow> getprop v k = JUndefined"
  by (cases v) simp_all

lemma map_of_assign: "map_of (assign r k v) = (map_of r)(k \<mapsto> v)"
  by (induction r k v rule: assign.induct) (auto simp: fun_eq_iff)

lemma map_of_key_iff: "(k \<in> fst ` set r) = (map_of r k \<noteq> None)"
  by (simp add: map_of_eq_None_iff)

lemma assign_from_keeps:
  "\<not> nullish base \<Longrightarrow> k \<notin> fst ` set fs \<Longrightarrow>
     \<exists>r'. assign_from r base fs = Inr r' \<and> map_of r' k = map_of r k"
proof (induction fs arbitrary: r)
  case Nil
  then show ?case by simp
next
  case (Cons a fs)
  obtain j f where a: "a = (j, f)" by (cases a)
  have "k \<notin> fst ` set fs" and "j \<noteq> k" using Cons.prems(2) a by auto
  with Cons.IH [OF Cons.prems(1), of "assign r j (getprop base f)"]
  show ?case
    using Cons.prems(1) by (simp add: a js_member_def map_of_assign)
qed

section \<open>The result normaliser is total\<close>

lemma flatten_result:
  assumes "\<not> nullish job"
  shows "\<exists>r. flatten job = Inr r
           \<and> (''structuredOutput'' \<in> fst ` set r
                \<longleftrightarrow> getprop (getprop (getprop job ''output'') ''result'') ''structured_output''
                      \<noteq> JUndefined)
           \<and> getprop (JObj r) ''structuredOutput''
                = getprop (getprop (getprop job ''output'') ''result'') ''structured_output''"
proof -
  let ?out = "getprop job ''output''"
  let ?res = "getprop ?out ''result''"
  let ?so = "getprop ?res ''structured_output''"
  let ?f1 = "[(''jobId'', ''id''), (''status'', ''status''), (''isSuccess'', ''isSuccess''),
         (''isFailed'', ''isFailed''), (''createdAt'', ''createdAt''),
         (''updatedAt'', ''updatedAt''), (''startedAt'', ''startedAt''),
         (''finishedAt'', ''finishedAt'')]"
  let ?f2 = "[(''success'', ''success''), (''text'', ''text''), (''error'', ''error'')]"
  let ?f3 = "[(''resultSubtype'', ''subtype''), (''resultText'', ''result''),
                  (''totalCostUsd'', ''total_cost_usd''), (''usage'', ''usage'')]"
  have "''structuredOutput'' \<notin> fst ` set ?f1" by simp
  from assign_from_keeps [OF assms this, of "[]"]
  obtain r1 where r1: "assign_from [] job ?f1 = Inr r1"
      and k1: "map_of r1 ''structuredOutput'' = None"
    by auto
  have m: "js_member job ''output'' = Inr ?out"
    using assms by (simp add: js_member_def)
  show ?thesis
  proof (cases "truthy ?out")
    case False
    then have "flatten job = Inr (assign r1 ''rawOutput'' ?out)"
      by (simp add: flatten_def and_then_def r1 m del: assign_from.simps)
    moreover have "?so = JUndefined"
      using False by (simp add: falsy_getprop)
    ultimately show ?thesis
      using k1 by (simp add: map_of_key_iff map_of_assign)
  next
    case out: True
    then have nn: "\<not> nullish ?out" by (rule truthy_not_nullish)
    have "''structuredOutput'' \<notin> fst ` set ?f2" by simp
    from assign_from_keeps [OF nn this, of r1]
    obtain r2 where r2: "assign_from r1 ?out ?f2 = Inr r2"
        and k2: "map_of r2 ''structuredOutput'' = None"
      using k1 by auto
    have m2: "js_member ?out ''result'' = Inr ?res"
      using nn by (simp add: js_member_def)
    show ?thesis
    proof (cases "truthy ?res")
      case False
      then have "flatten job = Inr (assign r2 ''rawOutput'' ?out)"
        using out by (simp add: flatten_def and_then_def r1 m r2 m2 del: assign_from.simps)
      moreover have "?so = JUndefined"
        using False by (simp add: falsy_getprop)
      ultimately show ?thesis
        using k2 by (simp add: map_of_key_iff map_of_assign)
    next
      case res: True
      then have nr: "\<not> nullish ?res" by (rule truthy_not_nullish)
      have "''structuredOutput'' \<notin> fst ` set ?f3" by simp
      from assign_from_keeps [OF nr this, of r2]
      obtain r3 where r3: "assign_from r2 ?res ?f3 = Inr r3"
          and k3: "map_of r3 ''structuredOutput'' = None"
        using k2 by auto
      have m3: "js_member ?res ''structured_output'' = Inr ?so"
        using nr by (simp add: js_member_def)
      have "flatten job = Inr (assign (if ?so \<noteq> JUndefined
                then assign r3 ''structuredOutput'' ?so else r3) ''rawOutput'' ?out)"
        using out res
        by (simp add: flatten_def and_then_def r1 m r2 m2 r3 m3 del: assign_from.simps)
      then show ?thesis
        using k3 by (simp add: map_of_key_iff map_of_assign)
    qed
  qed
qed

text \<open>
  C3. Flattening a job record that is an object never throws, whatever is present of
  \<^verbatim>\<open>output\<close>, \<^verbatim>\<open>output.result\<close> and \<^verbatim>\<open>output.result.structured_output\<close>; the flat
  record has the key \<^verbatim>\<open>structuredOutput\<close> exactly when
  \<^verbatim>\<open>output.result.structured_output\<close> is not \<open>undefined\<close>, whether truthy or not,
  and then holds that value.
\<close>

theorem flatten_total:
  assumes "\<not> nullish job"
  shows "\<exists>r. flatten job = Inr r
           \<and> (''structuredOutput'' \<in> fst ` set r
                \<longleftrightarrow> getprop (getprop (getprop job ''output'') ''result'') ''structured_output''
                      \<noteq> JUndefined)
           \<and> getprop (JObj r) ''structuredOutput''
                = getprop (getprop (getprop job ''output'') ''result'') ''structured_output''"
  using assms by (rule flatten_result)

theorem flatten_total_witness:
  "\<not> nullish example_completed
   \<and> (\<exists>r. flatten example_completed = Inr r
          \<and> ''structuredOutput'' \<in> fst ` set r
          \<and> getprop (JObj r) ''structuredOutput'' = JNum 0)"
  using flatten_total [of example_completed]
  by (simp add: example_completed_def nullish_def)

section \<open>The poll loop\<close>

lemma poll_pending_step:
  assumes "pending w k" "clock w n - start < lim"
  shows "poll w v iv lim s start n k tr
       = poll w v iv lim s start (Suc n) (Suc k) (tr @ [getJob_request v, Suspend iv])"
  using assms
  by (subst poll.simps) (auto simp: pending_def js_member_def split: sum.splits)

lemma poll_pending_steps:
  assumes "\<forall>i<N. pending w (k + i)" "\<forall>i<N. clock w (n + i) - start < lim"
  shows "poll w v iv lim s start n k tr
       = poll w v iv lim s start (n + N) (k + N)
           (tr @ concat (replicate N [getJob_request v, Suspend iv]))"
  using assms
proof (induction N arbitrary: n k tr)
  case 0
  then show ?case by simp
next
  case (Suc N)
  have p0: "pending w k" and c0: "clock w n - start < lim"
    using Suc.prems(1) [rule_format, of 0] Suc.prems(2) [rule_format, of 0] by simp_all
  have pN: "\<forall>i<N. pending w (Suc k + i)"
    using Suc.prems(1) [rule_format, of "Suc i" for i] by simp
  have cN: "\<forall>i<N. clock w (Suc n + i) - start < lim"
    using Suc.prems(2) [rule_format, of "Suc i" for i] by simp
  show ?case
    using Suc.IH [OF pN cN, of "tr @ [getJob_request v, Suspend iv]"]
    by (simp add: poll_pending_step [OF p0 c0])
qed

lemma poll_completed:
  assumes "getJob w k = Inr job" "truthy (getprop job ''isCompleted'')"
    "clock w n - start < lim"
  shows "poll w v iv lim s start n k tr = Some (flatten job, tr @ [getJob_request v])"
proof -
  have "\<not> nullish job"
    using assms(2) by (cases job) (simp_all add: nullish_def)
  then show ?thesis
    using assms by (subst poll.simps) (simp add: js_member_def)
qed

lemma poll_deadline:
  assumes "\<not> clock w n - start < lim"
  shows "poll w v iv lim s start n k tr
       = Some (Inl (NodeOperationError (timeout_message v s)), tr)"
  using assms by (subst poll.simps) simp

lemma requested_append: "requested x (tr @ tr') = requested x tr + requested x tr'"
  by (induction x tr rule: requested.induct) simp_all

lemma requested_rounds:
  "requested x (concat (replicate N [getJob_request v, Suspend iv]))
     = (if x = JobsGet then N else 0)"
  by (induction N) (auto simp: getJob_request_def)

lemma requested_fetch: "requested x [getJob_request v] = (if x = JobsGet then 1 else 0)"
  by (simp add: getJob_request_def)

lemma submit_trace:
  "submit w p = (r, tr) \<Longrightarrow> requested JobsGet tr = 0 \<and> requested JobsCancel tr = 0"
  by (auto simp: submit_def Let_def split: sum.splits)

text \<open>
  C1. With \<^verbatim>\<open>waitForCompletion\<close> set, after an accepted submission: when the first \<open>N\<close>
  fetches return a job that is not completed, the next one a completed job, and the
  clock stays below the deadline at each of these \<open>N + 1\<close> tests of the loop, then
  \<^verbatim>\<open>createJob\<close> returns the flattened record of that job. After the submission its
  trace is \<open>N\<close> rounds of a fetch followed by a timer of the polling interval, then
  one last fetch: the first fetch has no timer before it, no timer follows the last
  one, and there are \<open>N + 1\<close> fetches.
\<close>

theorem poll_round_trip:
  assumes sub: "submit w p = (Inr (data, n), tr0)"
    and wait: "waitForCompletion p"
    and pend: "\<forall>i<N. pending w i"
    and fin: "getJob w N = Inr job" "truthy (getprop job ''isCompleted'')"
    and time: "\<forall>i\<le>N. clock w (Suc n + i) - clock w n < timeout_ms p"
  shows "\<exists>r tr. createJob w p = Some (Inr r, tr) \<and> flatten job = Inr r
           \<and> tr = tr0 @ concat (replicate N [getJob_request (getprop data ''vesselId''),
                                               Suspend (pollingInterval_ms p)])
                      @ [getJob_request (getprop data ''vesselId'')]
           \<and> requested JobsGet tr = N + 1"
proof -
  let ?v = "getprop data ''vesselId''"
  let ?rounds = "concat (replicate N [getJob_request ?v, Suspend (pollingInterval_ms p)])"
  have "\<not> nullish job"
    using fin(2) by (cases job) (simp_all add: nullish_def)
  then obtain r where r: "flatten job = Inr r"
    using flatten_result [of job] by blast
  have p1: "\<forall>i<N. pending w (0 + i)" using pend by simp
  have t1: "\<forall>i<N. clock w (Suc n + i) - clock w n < timeout_ms p" using time by simp
  have t2: "clock w (Suc n + N) - clock w n < timeout_ms p" using time by simp
  have "createJob w p = Some (flatten job, (tr0 @ ?rounds) @ [getJob_request ?v])"
    using wait fin t2
    by (simp add: createJob_def sub poll_pending_steps [OF p1 t1] poll_completed)
  moreover have "requested JobsGet (tr0 @ ?rounds @ [getJob_request ?v]) = N + 1"
    using submit_trace [OF sub]
    by (simp add: requested_append requested_rounds requested_fetch)
  ultimately show ?thesis using r by simp
qed

text \<open>
  C2. With \<^verbatim>\<open>waitForCompletion\<close> set, after an accepted submission: when the clock
  is below the deadline at the first \<open>M\<close> tests of the loop and has reached it at the
  next one, and the \<open>M\<close> fetches made until then return a job that is not completed,
  then \<^verbatim>\<open>createJob\<close> throws the error whose message names the job id and the
  timeout in seconds. There are \<open>M\<close> fetches, none after the deadline was seen, and no
  request to cancel the job.
\<close>

theorem poll_timeout:
  assumes sub: "submit w p = (Inr (data, n), tr0)"
    and wait: "waitForCompletion p"
    and pend: "\<forall>i<M. pending w i"
    and early: "\<forall>i<M. clock w (Suc n + i) - clock w n < timeout_ms p"
    and late: "\<not> clock w (Suc n + M) - clock w n < timeout_ms p"
  shows "\<exists>tr. createJob w p =
           Some (Inl (NodeOperationError
                   [Lit ''Job '', Interp (getprop data ''vesselId''),
                    Lit '' did not complete within '',
                    Interp (JNum (num_or (timeout (pollingOptions p)) 600)),
                    Lit '' seconds'']), tr)
           \<and> tr = tr0 @ concat (replicate M [getJob_request (getprop data ''vesselId''),
                                               Suspend (pollingInterval_ms p)])
           \<and> requested JobsGet tr = M
           \<and> requested JobsCancel tr = 0"
proof -
  let ?v = "getprop data ''vesselId''"
  let ?rounds = "concat (replicate M [getJob_request ?v, Suspend (pollingInterval_ms p)])"
  have p1: "\<forall>i<M. pending w (0 + i)" using pend by simp
  have "createJob w p =
          Some (Inl (NodeOperationError
                  (timeout_message ?v (num_or (timeout (pollingOptions p)) 600))), tr0 @ ?rounds)"
    using wait late
    by (simp add: createJob_def sub poll_pending_steps [OF p1 early] poll_deadline)
  moreover have "requested JobsGet (tr0 @ ?rounds) = M" "requested JobsCancel (tr0 @ ?rounds) = 0"
    using submit_trace [OF sub]
    by (simp_all add: requested_append requested_rounds)
  ultimately show ?thesis by (simp add: timeout_message_def)
qed

subsection \<open>The scenario, run\<close>

lemma example_submit:
  "submit example_world example_params
     = (Inr (example_data, 1), snd (submit example_world example_params))"
  by (simp add: prod_eq_iff submit_def getHmacKey_def and_then_def js_member_def nullish_def
        example_world_def example_params_def check_response_def example_data_def
        clock_reads_def str_truthy_def Let_def)

lemma example_stuck_submit:
  "submit example_stuck example_params
     = (Inr (example_data, 1), snd (submit example_stuck example_params))"
  by (simp add: prod_eq_iff submit_def getHmacKey_def and_then_def js_member_def nullish_def
        example_stuck_def example_world_def example_params_def check_response_def example_data_def
        clock_reads_def str_truthy_def Let_def)

theorem poll_round_trip_witness:
  "submit example_world example_params
     = (Inr (example_data, 1), snd (submit example_world example_params))
   \<and> waitForCompletion example_params
   \<and> pending example_world 0 \<and> pending example_world 1
   \<and> getJob example_world 2 = Inr example_completed
   \<and> truthy (getprop example_completed ''isCompleted'')
   \<and> clock example_world 2 - clock example_world 1 < timeout_ms example_params
   \<and> clock example_world 3 - clock example_world 1 < timeout_ms example_params
   \<and> clock example_world 4 - clock example_world 1 < timeout_ms example_params
   \<and> (\<exists>r tr. createJob example_world example_params = Some (Inr r, tr)
          \<and> flatten example_completed = Inr r
          \<and> tr = snd (submit example_world example_params)
                 @ [getJob_request (JStr ''job_1''), Suspend 1000,
                    getJob_request (JStr ''job_1''), Suspend 1000,
                    getJob_request (JStr ''job_1'')]
          \<and> requested JobsGet tr = 3)"
proof -
  have pend: "\<forall>i<2. pending example_world i"
    by (simp add: pending_def getJob_def and_then_def js_member_def nullish_def
          example_world_def example_running_def)
  have fin: "getJob example_world 2 = Inr example_completed"
      "truthy (getprop example_completed ''isCompleted'')"
    by (simp_all add: getJob_def and_then_def js_member_def nullish_def
          example_world_def example_completed_def)
  have wait: "waitForCompletion example_params"
    by (simp add: example_params_def)
  have time: "\<forall>i\<le>2. clock example_world (Suc 1 + i) - clock example_world 1
                  < timeout_ms example_params"
    by (simp add: example_world_def example_params_def timeout_ms_def num_or_def)
  have iv: "pollingInterval_ms example_params = 1000"
    by (simp add: example_params_def pollingInterval_ms_def num_or_def)
  have v: "getprop example_data ''vesselId'' = JStr ''job_1''"
    by (simp add: example_data_def)
  have two: "replicate 2 x = [x, x]" for x :: "event list"
    by (simp add: numeral_2_eq_2)
  have c: "clock example_world 2 - clock example_world 1 < timeout_ms example_params"
      "clock example_world 3 - clock example_world 1 < timeout_ms example_params"
      "clock example_world 4 - clock example_world 1 < timeout_ms example_params"
    by (simp_all add: example_world_def example_params_def timeout_ms_def num_or_def)
  show ?thesis
    using poll_round_trip [OF example_submit wait pend fin time] pend fin wait c example_submit
    by (simp add: iv v two)
qed


theorem poll_timeout_witness:
  "submit example_stuck example_params
     = (Inr (example_data, 1), snd (submit example_stuck example_params))
   \<and> waitForCompletion example_params
   \<and> pending example_stuck 0 \<and> pending example_stuck 1 \<and> pending example_stuck 2
   \<and> clock example_stuck 2 - clock example_stuck 1 < timeout_ms example_params
   \<and> clock example_stuck 3 - clock example_stuck 1 < timeout_ms example_params
   \<and> clock example_stuck 4 - clock example_stuck 1 < timeout_ms example_params
   \<and> \<not> clock example_stuck 5 - clock example_stuck 1 < timeout_ms example_params
   \<and> (\<exists>tr. createJob example_stuck example_params =
           Some (Inl (NodeOperationError
                   [Lit ''Job '', Interp (JStr ''job_1''), Lit '' did not complete within '',
                    Interp (JNum 3), Lit '' seconds'']), tr)
          \<and> requested JobsGet tr = 3
          \<and> requested JobsCancel tr = 0)"
proof -
  have pend: "\<forall>i<3. pending example_stuck i"
    by (simp add: pending_def getJob_def and_then_def js_member_def nullish_def
          example_stuck_def example_world_def example_running_def)
  have wait: "waitForCompletion example_params"
    by (simp add: example_params_def)
  have early: "\<forall>i<3. clock example_stuck (Suc 1 + i) - clock example_stuck 1
                  < timeout_ms example_params"
    by (simp add: example_stuck_def example_world_def example_params_def timeout_ms_def
          num_or_def)
  have late: "\<not> clock example_stuck (Suc 1 + 3) - clock example_stuck 1
                  < timeout_ms example_params"
    by (simp add: example_stuck_def example_world_def example_params_def timeout_ms_def
          num_or_def)
  have c: "clock example_stuck 2 - clock example_stuck 1 < timeout_ms example_params"
      "clock example_stuck 3 - clock example_stuck 1 < timeout_ms example_params"
      "clock example_stuck 4 - clock example_stuck 1 < timeout_ms example_params"
      "\<not> clock example_stuck 5 - clock example_stuck 1 < timeout_ms example_params"
    by (simp_all add: example_stuck_def example_world_def example_params_def timeout_ms_def
          num_or_def)
  have s: "num_or (timeout (pollingOptions example_params)) 600 = 3"
    by (simp add: example_params_def num_or_def)
  have v: "getprop example_data ''vesselId'' = JStr ''job_1''"
    by (simp add: example_data_def)
  show ?thesis
    using poll_timeout [OF example_stuck_submit wait pend early late] pend wait c
      example_stuck_submit
    by (simp add: s v)
qed

section \<open>The request and the submission\<close>

lemma submit_cong:
  "projectId p = projectId q \<Longrightarrow> token_request p = token_request q \<Longrightarrow>
   request_body w p = request_body w q \<Longrightarrow> clock_reads p = clock_reads q \<Longrightarrow>
   submit w p = submit w q"
  by (simp add: submit_def Let_def split: sum.splits)

lemma createJob_cong:
  "submit w p = submit w q \<Longrightarrow> waitForCompletion p = waitForCompletion q \<Longrightarrow>
   pollingInterval_ms p = pollingInterval_ms q \<Longrightarrow> timeout_ms p = timeout_ms q \<Longrightarrow>
   num_or (timeout (pollingOptions p)) 600 = num_or (timeout (pollingOptions q)) 600 \<Longrightarrow>
   createJob w p = createJob w q"
  by (simp add: createJob_def split: prod.splits sum.splits)

lemma map_of_append_key:
  "map_of (xs @ ys) k = (case map_of xs k of None \<Rightarrow> map_of ys k | Some v \<Rightarrow> Some v)"
  by (simp add: map_add_def split: option.splits)

lemma case_option_id: "(case x of None \<Rightarrow> None | Some v \<Rightarrow> Some v) = x"
  by (cases x) simp_all

lemma spread_str_other:
  "(\<And>s. map_of (f s) k = None) \<Longrightarrow> map_of (spread_str x f) k = None"
  by (simp add: spread_str_def split: option.splits)

lemma spread_num_other:
  "(\<And>n. map_of (f n) k = None) \<Longrightarrow> map_of (spread_num x f) k = None"
  by (simp add: spread_num_def split: option.splits)

lemma map_of_options_maxTurns:
  "map_of (request_options w p token) ''maxTurns''
     = (case maxTurns (modelOptions p) of
          None \<Rightarrow> None
        | Some n \<Rightarrow> if n \<noteq> 0 then Some (JNum n) else None)"
proof -
  have "map_of (spread_num (maxTurns (modelOptions p)) (\<lambda>n. [(''maxTurns'', JNum n)])) ''maxTurns''
      = (case maxTurns (modelOptions p) of
          None \<Rightarrow> None
        | Some n \<Rightarrow> if n \<noteq> 0 then Some (JNum n) else None)"
    by (simp add: spread_num_def split: option.splits)
  then show ?thesis
    by (simp add: request_options_def map_of_append_key spread_str_other case_option_id
          del: map_of_append cong: option.case_cong)
qed

lemma map_of_body_ttl:
  "map_of (request_body w p token) ''ttl''
     = (case ttl (advancedOptions p) of
          None \<Rightarrow> None
        | Some n \<Rightarrow> if 0 < n then Some (JNum n) else None)"
  by (simp add: request_body_def with_ttl_def with_callback_def map_of_assign
        split: option.splits)

lemma request_body_frame:
  "message p = message q \<Longrightarrow> idempotency_key w p = idempotency_key w q \<Longrightarrow>
   request_options w p token = request_options w q token \<Longrightarrow>
   with_ttl p = with_ttl q \<Longrightarrow> with_callback p = with_callback q \<Longrightarrow>
   request_body w p token = request_body w q token"
  by (simp add: request_body_def)

lemma maxTurns_zero_unset:
  "createJob w (p\<lparr>modelOptions := (modelOptions p)\<lparr>maxTurns := Some 0\<rparr>\<rparr>)
     = createJob w (p\<lparr>modelOptions := (modelOptions p)\<lparr>maxTurns := None\<rparr>\<rparr>)"
proof (rule createJob_cong, rule submit_cong)
  let ?p = "p\<lparr>modelOptions := (modelOptions p)\<lparr>maxTurns := Some 0\<rparr>\<rparr>"
  let ?q = "p\<lparr>modelOptions := (modelOptions p)\<lparr>maxTurns := None\<rparr>\<rparr>"
  have m: "model_of ?p = model_of ?q"
    by (simp add: model_of_def)
  have f: "parsedOutputFormat w ?p = parsedOutputFormat w ?q"
    by (simp add: parsedOutputFormat_def)
  have t: "toolsValue w ?p = toolsValue w ?q"
    by (simp add: toolsValue_def)
  have ro: "request_options w ?p token = request_options w ?q token" for token
    by (simp add: request_options_def m f t spread_num_def)
  have "request_body w ?p token = request_body w ?q token" for token
    by (rule request_body_frame)
       (simp_all add: ro idempotency_key_def with_ttl_def with_callback_def fun_eq_iff
          cong: option.case_cong if_cong)
  then show "request_body w ?p = request_body w ?q"
    by (simp add: fun_eq_iff)
  show "token_request ?p = token_request ?q"
    by (simp add: token_request_def fun_eq_iff)
qed (simp_all add: clock_reads_def pollingInterval_ms_def timeout_ms_def)

lemma ttl_zero_unset:
  "createJob w (p\<lparr>advancedOptions := (advancedOptions p)\<lparr>ttl := Some 0\<rparr>\<rparr>)
     = createJob w (p\<lparr>advancedOptions := (advancedOptions p)\<lparr>ttl := None\<rparr>\<rparr>)"
proof (rule createJob_cong, rule submit_cong)
  let ?p = "p\<lparr>advancedOptions := (advancedOptions p)\<lparr>ttl := Some 0\<rparr>\<rparr>"
  let ?q = "p\<lparr>advancedOptions := (advancedOptions p)\<lparr>ttl := None\<rparr>\<rparr>"
  have m: "model_of ?p = model_of ?q"
    by (simp add: model_of_def)
  have f: "parsedOutputFormat w ?p = parsedOutputFormat w ?q"
    by (simp add: parsedOutputFormat_def)
  have t: "toolsValue w ?p = toolsValue w ?q"
    by (simp add: toolsValue_def)
  have ro: "request_options w ?p token = request_options w ?q token" for token
    by (simp add: request_options_def m f t)
  have "request_body w ?p token = request_body w ?q token" for token
    by (rule request_body_frame)
       (simp_all add: ro idempotency_key_def with_ttl_def with_callback_def fun_eq_iff
          cong: option.case_cong if_cong)
  then show "request_body w ?p = request_body w ?q"
    by (simp add: fun_eq_iff)
  show "token_request ?p = token_request ?q"
    by (simp add: token_request_def fun_eq_iff)
qed (simp_all add: clock_reads_def pollingInterval_ms_def timeout_ms_def)


lemma map_of_body_options:
  "map_of (request_body w p token) ''options'' = Some (JObj (request_options w p token))"
  by (simp add: request_body_def with_ttl_def with_callback_def map_of_assign
        split: option.splits)

lemma map_of_body_idempotencyKey:
  "map_of (request_body w p token) ''idempotencyKey'' = Some (JStr (idempotency_key w p))"
  by (simp add: request_body_def with_ttl_def with_callback_def map_of_assign
        split: option.splits)

lemma map_of_options_tools:
  "map_of (request_options w p token) ''tools''
     = (if toolsValue w p \<noteq> JUndefined then Some (toolsValue w p) else None)"
  by (simp add: request_options_def map_of_append_key spread_str_other spread_num_other
        del: map_of_append cong: option.case_cong)

lemma map_of_options_outputFormat:
  "map_of (request_options w p token) ''outputFormat''
     = (if truthy (parsedOutputFormat w p) \<and> object_keys (parsedOutputFormat w p) \<noteq> []
        then Some (JObj [(''type'', JStr ''json_schema''),
                         (''schema'', parsedOutputFormat w p)])
        else None)"
  by (simp add: request_options_def map_of_append_key spread_str_other spread_num_other
        del: map_of_append cong: option.case_cong)

text \<open>
  C8. The request carries \<^verbatim>\<open>options.maxTurns\<close> exactly when \<^verbatim>\<open>maxTurns\<close> is set and not
  zero, and \<^verbatim>\<open>ttl\<close> exactly when \<^verbatim>\<open>ttl\<close> is set and greater than zero; a run with
  either of them zero is the run with it unset.
\<close>

theorem optional_numbers:
  "map_of (request_body w p token) ''options'' = Some (JObj (request_options w p token))
   \<and> map_of (request_options w p token) ''maxTurns''
       = (case maxTurns (modelOptions p) of
            None \<Rightarrow> None
          | Some n \<Rightarrow> if n \<noteq> 0 then Some (JNum n) else None)
   \<and> map_of (request_body w p token) ''ttl''
       = (case ttl (advancedOptions p) of
            None \<Rightarrow> None
          | Some n \<Rightarrow> if 0 < n then Some (JNum n) else None)
   \<and> createJob w (p\<lparr>modelOptions := (modelOptions p)\<lparr>maxTurns := Some 0\<rparr>\<rparr>)
       = createJob w (p\<lparr>modelOptions := (modelOptions p)\<lparr>maxTurns := None\<rparr>\<rparr>)
   \<and> createJob w (p\<lparr>advancedOptions := (advancedOptions p)\<lparr>ttl := Some 0\<rparr>\<rparr>)
       = createJob w (p\<lparr>advancedOptions := (advancedOptions p)\<lparr>ttl := None\<rparr>\<rparr>)"
  using map_of_body_options map_of_options_maxTurns map_of_body_ttl maxTurns_zero_unset
    ttl_zero_unset
  by blast

text \<open>
  C4, amended. For a tools string that is not empty: when \<^verbatim>\<open>JSON.parse\<close> decodes it to an
  array of strings, \<^verbatim>\<open>options.tools\<close> is that array; when \<^verbatim>\<open>JSON.parse\<close> throws,
  \<^verbatim>\<open>options.tools\<close> is the list of the comma-separated segments, each trimmed.
\<close>

theorem tools_parsing:
  assumes "tools (toolOptions p) = Some s" and "s \<noteq> []"
  shows "(\<forall>xs. json_parse w s = Some (JArr (map JStr xs))
             \<longrightarrow> map_of (request_options w p token) ''tools'' = Some (JArr (map JStr xs)))
       \<and> (json_parse w s = None
             \<longrightarrow> map_of (request_options w p token) ''tools'' = Some (split_trim s))"
  using assms by (simp add: map_of_options_tools toolsValue_def split_trim_def)

text \<open>
  C4 as stated, for every tools string, fails at the empty one: it is not JSON, and
  the request has no \<^verbatim>\<open>tools\<close> at all, where the comma split of the empty string
  is \<^verbatim>\<open>['']\<close>.
\<close>

theorem tools_empty_counterexample:
  "tools (toolOptions example_blank_tools) = Some []
   \<and> json_parse example_world [] = None
   \<and> map_of (request_options example_world example_blank_tools (JStr ''token'')) ''tools'' = None
   \<and> map_of (request_options example_world example_blank_tools (JStr ''token'')) ''tools''
       \<noteq> Some (split_trim [])"
  by (simp add: map_of_options_tools toolsValue_def example_blank_tools_def example_world_def
        example_parse_def)

lemma submit_frame:
  assumes "projectId p = projectId q" "message p = message q"
    "modelOptions p = modelOptions q" "toolOptions p = toolOptions q"
    "callbackOptions p = callbackOptions q" "advancedOptions p = advancedOptions q"
  shows "submit w p = submit w q"
proof (rule submit_cong)
  have m: "model_of p = model_of q"
    using assms by (simp add: model_of_def)
  have f: "parsedOutputFormat w p = parsedOutputFormat w q"
    using assms by (simp add: parsedOutputFormat_def)
  have t: "toolsValue w p = toolsValue w q"
    using assms by (simp add: toolsValue_def)
  have ro: "request_options w p token = request_options w q token" for token
    using assms by (simp add: request_options_def m f t)
  have "request_body w p token = request_body w q token" for token
    using assms
    by (intro request_body_frame)
       (simp_all add: ro idempotency_key_def with_ttl_def with_callback_def fun_eq_iff
          cong: option.case_cong if_cong)
  then show "request_body w p = request_body w q"
    by (simp add: fun_eq_iff)
  show "token_request p = token_request q"
    using assms by (simp add: token_request_def fun_eq_iff)
  show "clock_reads p = clock_reads q"
    using assms by (simp add: clock_reads_def)
qed (rule assms)

text \<open>
  C10. A polling interval of zero and a timeout of zero give the run of the unset
  option: the interval is 5000 ms and the timeout 600000 ms.
\<close>

theorem zero_polling_options:
  "createJob w (p\<lparr>pollingOptions := \<lparr>pollingInterval = Some 0, timeout = t\<rparr>\<rparr>)
     = createJob w (p\<lparr>pollingOptions := \<lparr>pollingInterval = None, timeout = t\<rparr>\<rparr>)
   \<and> createJob w (p\<lparr>pollingOptions := \<lparr>pollingInterval = i, timeout = Some 0\<rparr>\<rparr>)
     = createJob w (p\<lparr>pollingOptions := \<lparr>pollingInterval = i, timeout = None\<rparr>\<rparr>)
   \<and> pollingInterval_ms (p\<lparr>pollingOptions := \<lparr>pollingInterval = Some 0, timeout = t\<rparr>\<rparr>) = 5000
   \<and> timeout_ms (p\<lparr>pollingOptions := \<lparr>pollingInterval = i, timeout = Some 0\<rparr>\<rparr>) = 600000"
proof -
  have "createJob w (p\<lparr>pollingOptions := a\<rparr>) = createJob w (p\<lparr>pollingOptions := b\<rparr>)"
    if "num_or (pollingInterval a) 5 = num_or (pollingInterval b) 5"
      and "num_or (timeout a) 600 = num_or (timeout b) 600" for a b
    by (rule createJob_cong, rule submit_frame)
       (simp_all add: that pollingInterval_ms_def timeout_ms_def)
  then show ?thesis
    by (simp add: pollingInterval_ms_def timeout_ms_def num_or_def)
qed

text \<open>
  C6. When the reply of the execution endpoint has a non-empty \<^verbatim>\<open>error\<close> or
  \<^verbatim>\<open>message\<close>, each of the two fields being a string or absent as
  \<^verbatim>\<open>IncubateResponse\<close> declares them, \<^verbatim>\<open>createJob\<close> throws the error with
  \<^verbatim>\<open>message\<close>, or \<^verbatim>\<open>error\<close> when \<^verbatim>\<open>message\<close> is empty or absent; it returns no
  record and sends no request after the submission.
\<close>

theorem submission_error:
  assumes "getHmacKey w = Inr hmacSecret"
    and "createToken w (token_request p hmacSecret) = Inr token"
    and "incubate_reply w = Inr data"
    and "string_field (getprop data ''error'')"
    and "string_field (getprop data ''message'')"
    and "truthy (getprop data ''error'') \<or> truthy (getprop data ''message'')"
  shows "createJob w p =
           Some (Inl (NodeOperationError
                   [Interp (if truthy (getprop data ''message'') then getprop data ''message''
                            else getprop data ''error'')]),
                 [Http HmacKey (JObj [(''projectId'', JStr (projectId p))]),
                  Http Incubate (JObj (request_body w p token))])"
proof -
  have n: "\<not> nullish data"
    using assms(6) by (cases data) (simp_all add: nullish_def)
  have "operation_error w
          (js_or (getprop data ''message'')
             (js_or (getprop data ''error'') (JStr ''Failed to create job'')))
        = NodeOperationError
            [Interp (if truthy (getprop data ''message'') then getprop data ''message''
                     else getprop data ''error'')]"
    using assms(4,5,6)
    by (cases "getprop data ''message''"; cases "getprop data ''error''")
       (simp_all add: operation_error_def js_or_def)
  then show ?thesis
    using assms(1,2,3,6) n
    by (simp add: createJob_def submit_def check_response_def)
qed

text \<open>
  C9. When the cancel request succeeds, \<^verbatim>\<open>cancelJob\<close> returns
  \<^verbatim>\<open>{ success: true, jobId }\<close> with the id it was given, whatever the reply holds.
\<close>

theorem cancel_result:
  assumes "cancel_reply w = Inr response"
  shows "fst (cancelJob w jobId) = Inr [(''success'', JBool True), (''jobId'', JStr jobId)]"
  using assms by (simp add: cancelJob_def)


lemma outputFormat_ignored:
  assumes "parsedOutputFormat w p = JUndefined"
  shows "createJob w p = createJob w (p\<lparr>modelOptions := (modelOptions p)\<lparr>outputFormat := JUndefined\<rparr>\<rparr>)"
proof (rule createJob_cong, rule submit_cong)
  let ?q = "p\<lparr>modelOptions := (modelOptions p)\<lparr>outputFormat := JUndefined\<rparr>\<rparr>"
  have m: "model_of p = model_of ?q"
    by (simp add: model_of_def)
  have f: "parsedOutputFormat w ?q = JUndefined"
    by (simp add: parsedOutputFormat_def)
  have t: "toolsValue w p = toolsValue w ?q"
    by (simp add: toolsValue_def)
  have ro: "request_options w p token = request_options w ?q token" for token
    by (simp add: request_options_def m f t assms)
  have "request_body w p token = request_body w ?q token" for token
    by (intro request_body_frame)
       (simp_all add: ro idempotency_key_def with_ttl_def with_callback_def fun_eq_iff
          cong: option.case_cong if_cong)
  then show "request_body w p = request_body w ?q"
    by (simp add: fun_eq_iff)
  show "token_request p = token_request ?q"
    by (simp add: token_request_def fun_eq_iff)
qed (simp_all add: clock_reads_def pollingInterval_ms_def timeout_ms_def)

text \<open>
  C5. An output format that is a string \<^verbatim>\<open>JSON.parse\<close> rejects leaves the request
  without \<^verbatim>\<open>outputFormat\<close>, and the run is the run with the option unset. An output
  format that is a non-empty object, or a string decoded to one, is sent as
  \<^verbatim>\<open>{ type: 'json_schema', schema: <the object> }\<close>.
\<close>

theorem output_format:
  "(outputFormat (modelOptions p) = JStr s \<and> json_parse w s = None
      \<longrightarrow> map_of (request_options w p token) ''outputFormat'' = None
        \<and> createJob w p
            = createJob w (p\<lparr>modelOptions := (modelOptions p)\<lparr>outputFormat := JUndefined\<rparr>\<rparr>))
   \<and> (outputFormat (modelOptions p) = JObj kvs \<and> kvs \<noteq> []
      \<longrightarrow> map_of (request_options w p token) ''outputFormat''
            = Some (JObj [(''type'', JStr ''json_schema''), (''schema'', JObj kvs)]))
   \<and> (outputFormat (modelOptions p) = JStr s \<and> json_parse w [] = None
        \<and> json_parse w s = Some (JObj kvs) \<and> kvs \<noteq> []
      \<longrightarrow> map_of (request_options w p token) ''outputFormat''
            = Some (JObj [(''type'', JStr ''json_schema''), (''schema'', JObj kvs)]))"
proof (intro conjI impI)
  assume a: "outputFormat (modelOptions p) = JStr s \<and> json_parse w s = None"
  then have u: "parsedOutputFormat w p = JUndefined"
    by (simp add: parsedOutputFormat_def Let_def)
  then show "map_of (request_options w p token) ''outputFormat'' = None"
    by (simp add: map_of_options_outputFormat)
  from u show "createJob w p
      = createJob w (p\<lparr>modelOptions := (modelOptions p)\<lparr>outputFormat := JUndefined\<rparr>\<rparr>)"
    by (rule outputFormat_ignored)
next
  assume "outputFormat (modelOptions p) = JObj kvs \<and> kvs \<noteq> []"
  then have "parsedOutputFormat w p = JObj kvs" and "kvs \<noteq> []"
    by (simp_all add: parsedOutputFormat_def Let_def)
  then show "map_of (request_options w p token) ''outputFormat''
            = Some (JObj [(''type'', JStr ''json_schema''), (''schema'', JObj kvs)])"
    by (simp add: map_of_options_outputFormat)
next
  assume a: "outputFormat (modelOptions p) = JStr s \<and> json_parse w [] = None
        \<and> json_parse w s = Some (JObj kvs) \<and> kvs \<noteq> []"
  then have "s \<noteq> []" by auto
  with a have "parsedOutputFormat w p = JObj kvs" and "kvs \<noteq> []"
    by (simp_all add: parsedOutputFormat_def Let_def)
  then show "map_of (request_options w p token) ''outputFormat''
            = Some (JObj [(''type'', JStr ''json_schema''), (''schema'', JObj kvs)])"
    by (simp add: map_of_options_outputFormat)
qed

lemma digit_char_inj:
  assumes "m < 16" "n < 16" "digit_char m = digit_char n"
  shows "m = n"
proof -
  have "distinct ''0123456789abcdef''" by simp
  moreover have "m < length ''0123456789abcdef''" "n < length ''0123456789abcdef''"
    using assms by simp_all
  ultimately show ?thesis
    using assms(3) unfolding digit_char_def by (simp only: nth_eq_iff_index_eq)
qed

lemma hex_byte_inj:
  assumes "hex_byte a = hex_byte b"
  shows "a = b"
proof -
  have "unat a < 2 ^ LENGTH(8)" and "unat b < 2 ^ LENGTH(8)"
    by (rule unsigned_less)+
  then have la: "unat a < 256" and lb: "unat b < 256"
    by simp_all
  from assms have d: "digit_char (unat a div 16) = digit_char (unat b div 16)"
    and m: "digit_char (unat a mod 16) = digit_char (unat b mod 16)"
    by (simp_all add: hex_byte_def)
  have "unat a div 16 = unat b div 16"
    by (rule digit_char_inj [OF _ _ d]) (use la lb in simp_all)
  moreover have "unat a mod 16 = unat b mod 16"
    by (rule digit_char_inj [OF _ _ m]) simp_all
  ultimately have "unat a = unat b"
    by (metis div_mult_mod_eq)
  then show ?thesis by (simp add: word_unat_eq_iff)
qed

lemma hex_inj: "hex a = hex b \<Longrightarrow> a = b"
proof (induction a arbitrary: b)
  case Nil
  then show ?case by (cases b) (simp_all add: hex_def hex_byte_def)
next
  case (Cons x xs)
  then obtain y ys where b: "b = y # ys"
    by (cases b) (simp_all add: hex_def hex_byte_def)
  from Cons.prems have "hex_byte x = hex_byte y" and "hex xs = hex ys"
    by (simp_all add: hex_def hex_byte_def b)
  then show ?case
    using Cons.IH hex_byte_inj b by blast
qed

text \<open>
  C7. A supplied idempotency key that is not empty is sent as it is. Without one the
  key is \<^verbatim>\<open>n8n-\<close>, the clock reading in decimal, \<^verbatim>\<open>-\<close> and the random bytes in
  hexadecimal; two such keys made at the same clock reading from different random
  bytes differ.
\<close>

theorem idempotency:
  "(\<forall>s. idempotencyKey (advancedOptions p) = Some s \<and> s \<noteq> []
       \<longrightarrow> map_of (request_body w p token) ''idempotencyKey'' = Some (JStr s))
   \<and> (\<not> str_truthy (idempotencyKey (advancedOptions p))
       \<longrightarrow> map_of (request_body w p token) ''idempotencyKey''
            = Some (JStr (''n8n-'' @ decimal (clock w 0) @ ''-'' @ hex (randomBytes w))))
   \<and> (\<not> str_truthy (idempotencyKey (advancedOptions p))
        \<and> \<not> str_truthy (idempotencyKey (advancedOptions p'))
        \<and> clock w 0 = clock w' 0 \<and> randomBytes w \<noteq> randomBytes w'
       \<longrightarrow> map_of (request_body w p token) ''idempotencyKey''
            \<noteq> map_of (request_body w' p' token') ''idempotencyKey'')"
proof -
  have g: "idempotency_key v q = generated_key v"
    if "\<not> str_truthy (idempotencyKey (advancedOptions q))" for v q
    using that by (simp add: idempotency_key_def str_or_def str_truthy_def split: option.splits)
  have "generated_key w \<noteq> generated_key w'"
    if "clock w 0 = clock w' 0" "randomBytes w \<noteq> randomBytes w'"
    using that hex_inj by (auto simp: generated_key_def)
  then show ?thesis
    by (auto simp: map_of_body_idempotencyKey g)
       (simp_all add: idempotency_key_def str_or_def generated_key_def)
qed

subsection \<open>The scenario, built\<close>

theorem tools_parsing_witness:
  \<open>tools (toolOptions example_params) = Some ''["Read","Bash"]''
   \<and> json_parse example_world ''["Read","Bash"]'' = Some (JArr (map JStr [''Read'', ''Bash'']))
   \<and> map_of (request_options example_world example_params (JStr ''token'')) ''tools''
       = Some (JArr [JStr ''Read'', JStr ''Bash''])
   \<and> tools (toolOptions example_csv_tools) = Some ''Read, Bash''
   \<and> json_parse example_world ''Read, Bash'' = None
   \<and> map_of (request_options example_world example_csv_tools (JStr ''token'')) ''tools''
       = Some (JArr [JStr ''Read'', JStr ''Bash''])\<close>
proof -
  have a: \<open>tools (toolOptions example_params) = Some ''["Read","Bash"]''\<close>
    by (simp add: example_params_def)
  have b: \<open>json_parse example_world ''["Read","Bash"]'' = Some (JArr (map JStr [''Read'', ''Bash'']))\<close>
    by (simp add: example_world_def example_parse_def)
  have c: "tools (toolOptions example_csv_tools) = Some ''Read, Bash''"
    by (simp add: example_csv_tools_def)
  have d: "json_parse example_world ''Read, Bash'' = None"
    by (simp add: example_world_def example_parse_def)
  have e: "split_trim ''Read, Bash'' = JArr [JStr ''Read'', JStr ''Bash'']"
    by (simp add: split_trim_def trim_def is_space_def)
  have t1: "map_of (request_options example_world example_params (JStr ''token'')) ''tools''
       = Some (JArr (map JStr [''Read'', ''Bash'']))"
    using tools_parsing [OF a, of example_world "JStr ''token''"] b by blast
  have t2: "map_of (request_options example_world example_csv_tools (JStr ''token'')) ''tools''
       = Some (split_trim ''Read, Bash'')"
    using tools_parsing [OF c, of example_world "JStr ''token''"] d by blast
  show ?thesis
    using t1 t2 a b c d by (simp add: e)
qed

theorem optional_numbers_witness:
  "maxTurns (modelOptions example_params) = Some 0
   \<and> ttl (advancedOptions example_params) = Some 0
   \<and> map_of (request_options example_world example_params (JStr ''token'')) ''maxTurns'' = None
   \<and> map_of (request_body example_world example_params (JStr ''token'')) ''ttl'' = None"
  using optional_numbers [of example_world example_params "JStr ''token''"]
  by (simp add: example_params_def)

theorem cancel_result_witness:
  "cancel_reply example_world = Inr (JObj [(''ok'', JBool True)])
   \<and> fst (cancelJob example_world ''job_1'')
       = Inr [(''success'', JBool True), (''jobId'', JStr ''job_1'')]"
  using cancel_result [of example_world "JObj [(''ok'', JBool True)]" "''job_1''"]
  by (simp add: example_world_def)

theorem submission_error_witness:
  "getHmacKey example_refused = Inr (JStr ''hmac'')
   \<and> createToken example_refused (token_request example_params (JStr ''hmac'')) = Inr (JStr ''token'')
   \<and> incubate_reply example_refused = Inr (JObj [(''error'', JStr ''Invalid token'')])
   \<and> string_field (getprop (JObj [(''error'', JStr ''Invalid token'')]) ''error'')
   \<and> string_field (getprop (JObj [(''error'', JStr ''Invalid token'')]) ''message'')
   \<and> truthy (getprop (JObj [(''error'', JStr ''Invalid token'')]) ''error'')
   \<and> createJob example_refused example_params =
        Some (Inl (NodeOperationError [Interp (JStr ''Invalid token'')]),
              [Http HmacKey (JObj [(''projectId'', JStr ''proj_1'')]),
               Http Incubate (JObj (request_body example_refused example_params (JStr ''token'')))])"
proof -
  have a: "getHmacKey example_refused = Inr (JStr ''hmac'')"
    by (simp add: getHmacKey_def and_then_def js_member_def nullish_def example_refused_def
          example_world_def)
  have b: "createToken example_refused (token_request example_params (JStr ''hmac''))
             = Inr (JStr ''token'')"
    by (simp add: example_refused_def example_world_def)
  have c: "incubate_reply example_refused = Inr (JObj [(''error'', JStr ''Invalid token'')])"
    by (simp add: example_refused_def example_world_def)
  have d: "truthy (getprop (JObj [(''error'', JStr ''Invalid token'')]) ''error'')
             \<or> truthy (getprop (JObj [(''error'', JStr ''Invalid token'')]) ''message'')"
    by simp
  have e: "projectId example_params = ''proj_1''"
    by (simp add: example_params_def)
  have f: "string_field (getprop (JObj [(''error'', JStr ''Invalid token'')]) ''error'')"
      "string_field (getprop (JObj [(''error'', JStr ''Invalid token'')]) ''message'')"
    by simp_all
  show ?thesis
    using submission_error [OF a b c f d] a b c
    by (simp add: e)
qed

theorem output_format_witness:
  \<open>outputFormat (modelOptions example_bad_format) = JStr ''{bad''
   \<and> json_parse example_world ''{bad'' = None
   \<and> map_of (request_options example_world example_bad_format (JStr ''token'')) ''outputFormat''
       = None
   \<and> outputFormat (modelOptions example_object_format) = JObj [(''type'', JStr ''object'')]
   \<and> map_of (request_options example_world example_object_format (JStr ''token'')) ''outputFormat''
       = Some (JObj [(''type'', JStr ''json_schema''),
                     (''schema'', JObj [(''type'', JStr ''object'')])])
   \<and> outputFormat (modelOptions example_params) = JStr ''{"type":"object"}''
   \<and> json_parse example_world [] = None
   \<and> json_parse example_world ''{"type":"object"}'' = Some (JObj [(''type'', JStr ''object'')])
   \<and> map_of (request_options example_world example_params (JStr ''token'')) ''outputFormat''
       = Some (JObj [(''type'', JStr ''json_schema''),
                     (''schema'', JObj [(''type'', JStr ''object'')])])\<close>
proof -
  have a: "outputFormat (modelOptions example_bad_format) = JStr ''{bad''"
      "json_parse example_world ''{bad'' = None"
    by (simp_all add: example_bad_format_def example_world_def example_parse_def)
  have b: "outputFormat (modelOptions example_object_format) = JObj [(''type'', JStr ''object'')]"
    by (simp add: example_object_format_def)
  have c: \<open>outputFormat (modelOptions example_params) = JStr ''{"type":"object"}''\<close>
      \<open>json_parse example_world [] = None\<close>
      \<open>json_parse example_world ''{"type":"object"}'' = Some (JObj [(''type'', JStr ''object'')])\<close>
    by (simp_all add: example_params_def example_world_def example_parse_def)
  show ?thesis
    using output_format [of example_bad_format "''{bad''" example_world "JStr ''token''"]
      output_format [of example_object_format _ example_world "JStr ''token''"
                        "[(''type'', JStr ''object'')]"]
      output_format [of example_params _ example_world "JStr ''token''"
                        "[(''type'', JStr ''object'')]"]
      a b c
    by simp
qed

theorem zero_polling_options_witness:
  "createJob example_world
       (example_params\<lparr>pollingOptions := \<lparr>pollingInterval = Some 0, timeout = Some 3\<rparr>\<rparr>)
     = createJob example_world
         (example_params\<lparr>pollingOptions := \<lparr>pollingInterval = None, timeout = Some 3\<rparr>\<rparr>)
   \<and> createJob example_world
       (example_params\<lparr>pollingOptions := \<lparr>pollingInterval = Some 1, timeout = Some 0\<rparr>\<rparr>)
     = createJob example_world
         (example_params\<lparr>pollingOptions := \<lparr>pollingInterval = Some 1, timeout = None\<rparr>\<rparr>)
   \<and> pollingInterval_ms
         (example_params\<lparr>pollingOptions := \<lparr>pollingInterval = Some 0, timeout = Some 3\<rparr>\<rparr>) = 5000
   \<and> timeout_ms
         (example_params\<lparr>pollingOptions := \<lparr>pollingInterval = Some 1, timeout = Some 0\<rparr>\<rparr>) = 600000"
  by (rule zero_polling_options [where w = example_world and p = example_params
        and t = "Some 3" and i = "Some 1"])

lemma example_key: "generated_key example_world = ''n8n-1700000000000-deadbeef''"
  by (simp add: generated_key_def decimal_def digits.simps digit_char_def hex_def hex_byte_def
        example_world_def)

theorem idempotency_witness:
  "idempotencyKey (advancedOptions example_keyed) = Some ''my-key''
   \<and> map_of (request_body example_world example_keyed (JStr ''token'')) ''idempotencyKey''
       = Some (JStr ''my-key'')
   \<and> \<not> str_truthy (idempotencyKey (advancedOptions example_params))
   \<and> map_of (request_body example_world example_params (JStr ''token'')) ''idempotencyKey''
       = Some (JStr ''n8n-1700000000000-deadbeef'')
   \<and> clock example_world 0 = clock example_redraw 0
   \<and> randomBytes example_world \<noteq> randomBytes example_redraw
   \<and> map_of (request_body example_world example_params (JStr ''token'')) ''idempotencyKey''
       \<noteq> map_of (request_body example_redraw example_params (JStr ''token'')) ''idempotencyKey''"
proof -
  have a: "idempotencyKey (advancedOptions example_keyed) = Some ''my-key''"
    by (simp add: example_keyed_def)
  have b: "\<not> str_truthy (idempotencyKey (advancedOptions example_params))"
    by (simp add: example_params_def str_truthy_def)
  have c: "clock example_world 0 = clock example_redraw 0"
    and d: "randomBytes example_world \<noteq> randomBytes example_redraw"
    by (simp_all add: example_redraw_def example_world_def)
  have k: "''n8n-'' @ decimal (clock example_world 0) @ ''-'' @ hex (randomBytes example_world)
             = ''n8n-1700000000000-deadbeef''"
    using example_key by (simp add: generated_key_def)
  note i1 = idempotency [where p = example_keyed and w = example_world
        and token = "JStr ''token''" and p' = example_keyed and w' = example_world
        and token' = "JStr ''token''"]
  note i2 = idempotency [where p = example_params and w = example_world
        and token = "JStr ''token''" and p' = example_params and w' = example_redraw
        and token' = "JStr ''token''"]
  have r1: "map_of (request_body example_world example_keyed (JStr ''token'')) ''idempotencyKey''
       = Some (JStr ''my-key'')"
    using i1 a by simp
  have r2: "map_of (request_body example_world example_params (JStr ''token'')) ''idempotencyKey''
       = Some (JStr ''n8n-1700000000000-deadbeef'')"
    using i2 b by (simp only: k) simp
  have r3: "map_of (request_body example_world example_params (JStr ''token'')) ''idempotencyKey''
       \<noteq> map_of (request_body example_redraw example_params (JStr ''token'')) ''idempotencyKey''"
    using i2 b c d by blast
  show ?thesis
    by (intro conjI a r1 b r2 c d r3)
qed

end
